theory Spec2Isabelle
  imports Main "HOL-Library.Sublist" "HOL-Library.AList" "HOL-Library.Word"
begin

section \<open>JavaScript values shared by the modules\<close>

text \<open>
  A thrown JavaScript \<open>Error\<close> object: its \<open>name\<close> and its \<open>message\<close>. A function of
  the source that may throw returns \<open>js_error + 'a\<close>, with \<open>Inl\<close> the thrown error.
  Text that the code only compares, joins or passes on (paths, messages, tokens, keys)
  is a \<open>string\<close>. A string whose length or characters the code inspects is a
  \<open>jstring\<close>: the list of its UTF-16 code units, as JavaScript has it, so that \<open>length\<close>
  is \<open>.length\<close>. \<open>js\<close> writes a literal of characters up to U+00FF as code units.
\<close>

type_synonym code_unit = "16 word"

type_synonym jstring = "code_unit list"

definition js :: "string \<Rightarrow> jstring" where
  "js s = map of_char s"

datatype js_error = Error (err_name: string) (message: string)

datatype json =
    JNull
  | JBool bool
  | JNum int
  | JStr string
  | JArr "json list"
  | JObj "(string \<times> json) list"

text \<open>JavaScript truthiness of an optional string: \<open>undefined\<close> and \<open>''\<close> are falsy.\<close>

fun truthy :: "'a list option \<Rightarrow> bool" where
  "truthy None = False"
| "truthy (Some s) = (s \<noteq> [])"

text \<open>\<open>String.prototype.startsWith\<close> and \<open>String.prototype.includes\<close> on one character.\<close>

definition startsWith :: "string \<Rightarrow> string \<Rightarrow> bool" where
  "startsWith s p = prefix p s"

definition includes_char :: "string \<Rightarrow> char \<Rightarrow> bool" where
  "includes_char s c = (c \<in> set s)"

section \<open>The auth module (lib/auth.ts)\<close>

text \<open>
  \<open>Omit<JWTPayload, 'iat' | 'exp'>\<close> is the record \<open>claims\<close>; \<open>JWTPayload\<close> extends it by
  the two optional timestamps (seconds since the epoch).
\<close>

record claims =
  userId :: string
  email :: string
  name :: string

record JWTPayload = claims +
  iat :: "nat option"
  exp :: "nat option"

text \<open>
  The package \<open>jsonwebtoken\<close> is not part of the repository, so its two entry points are
  parameters of the model. \<open>jwt_sign lib payload secret expiresIn now\<close> stands for
  \<open>jwt.sign(payload, secret, { expiresIn })\<close> called when the clock reads \<open>now\<close> seconds,
  with \<open>expiresIn\<close> in seconds; \<open>jwt_verify lib token secret now\<close> stands for
  \<open>jwt.verify(token, secret)\<close>, which returns the decoded payload or throws.
\<close>

record jwt_lib =
  jwt_sign :: "claims \<Rightarrow> string \<Rightarrow> nat \<Rightarrow> nat \<Rightarrow> string"
  jwt_verify :: "string \<Rightarrow> string \<Rightarrow> nat \<Rightarrow> js_error + JWTPayload"

text \<open>
  The module-level constant \<open>JWT_SECRET\<close> and the guard below it. Loading the module
  reads \<open>process.env.JWT_SECRET\<close>; when it is falsy (unset or empty) the module body
  throws, otherwise the module's exports close over the secret.
\<close>

record auth_module =
  JWT_SECRET :: string

definition load_auth :: "(string \<rightharpoonup> string) \<Rightarrow> js_error + auth_module" where
  "load_auth env =
     (let secret = env ''JWT_SECRET'' in
      if \<not> truthy secret
      then Inl (Error ''Error''
             ''Please define the JWT_SECRET environment variable inside .env.local'')
      else Inr \<lparr>JWT_SECRET = the secret\<rparr>)"

text \<open>\<open>expiresIn: '7d'\<close>, in seconds.\<close>

definition expiresIn_7d :: nat where
  "expiresIn_7d = 7 * 24 * 60 * 60"

definition generateToken :: "jwt_lib \<Rightarrow> auth_module \<Rightarrow> nat \<Rightarrow> claims \<Rightarrow> string" where
  "generateToken lib m now payload = jwt_sign lib payload (JWT_SECRET m) expiresIn_7d now"

text \<open>\<open>try { return jwt.verify(token, JWT_SECRET) } catch (error) { return null }\<close>\<close>

definition verifyToken ::
  "jwt_lib \<Rightarrow> auth_module \<Rightarrow> nat \<Rightarrow> string \<Rightarrow> js_error + JWTPayload option" where
  "verifyToken lib m now token =
     (case jwt_verify lib token (JWT_SECRET m) now of
        Inr decoded \<Rightarrow> Inr (Some decoded)
      | Inl error \<Rightarrow> Inr None)"

section \<open>The request gate (middleware.ts)\<close>

record URL =
  origin :: string
  pathname :: string
  searchParams :: "(string \<times> string) list"

record NextRequest =
  nextUrl :: URL
  cookies :: "(string \<times> string) list"
  headers :: "(string \<times> string) list"

record cookie_options =
  httpOnly :: bool
  secure :: bool
  sameSite :: string
  maxAge :: nat
  path :: string

text \<open>
  The three responses the handlers build: \<open>NextResponse.next()\<close>, with the request headers
  it overrides if any; \<open>NextResponse.json(body, { status })\<close>, with the cookies set on it
  by \<open>response.cookies.set(name, value, options)\<close>; and \<open>NextResponse.redirect(url)\<close>,
  with the names of the cookies the response deletes.
\<close>

datatype NextResponse =
    Next "(string \<times> string) list option"
  | Json json nat "(string \<times> string \<times> cookie_options) list"
  | Redirect URL "string list"

definition protectedRoutes :: "string list" where
  "protectedRoutes =
     [''/generate-program'', ''/profile'', ''/api/ai'', ''/api/programs'', ''/api/user'',
      ''/api/auth/me'']"

definition publicRoutes :: "string list" where
  "publicRoutes =
     [''/'', ''/api/auth/login'', ''/api/auth/register'', ''/api/auth/logout'',
      ''/api/auth/me'', ''/auth/login'', ''/auth/register'']"

definition protectedApiRoutes :: "string list" where
  "protectedApiRoutes = [''/api/ai'', ''/api/programs'', ''/api/user'']"

text \<open>\<open>request.cookies.get(name)?.value\<close>\<close>

definition cookies_get :: "NextRequest \<Rightarrow> string \<Rightarrow> string option" where
  "cookies_get request k = map_of (cookies request) k"

text \<open>\<open>new URL(path, request.url)\<close>: the request's origin, the given path, no query.\<close>

definition new_URL :: "string \<Rightarrow> NextRequest \<Rightarrow> URL" where
  "new_URL p request = \<lparr>origin = origin (nextUrl request), pathname = p, searchParams = []\<rparr>"

definition searchParams_set :: "URL \<Rightarrow> string \<Rightarrow> string \<Rightarrow> URL" where
  "searchParams_set u k v = u\<lparr>searchParams := AList.update k v (searchParams u)\<rparr>"

definition middleware ::
  "jwt_lib \<Rightarrow> auth_module \<Rightarrow> nat \<Rightarrow> NextRequest \<Rightarrow> js_error + NextResponse" where
  "middleware lib m now request =
     (let pathname = pathname (nextUrl request) in
      if startsWith pathname ''/_next'' \<or> startsWith pathname ''/static'' \<or>
         includes_char pathname CHR ''.'' \<or> startsWith pathname ''/favicon.ico''
      then Inr (Next None)
      else
        let isPublicRoute =
              list_ex (\<lambda>route. pathname = route \<or> startsWith pathname route) publicRoutes;
            isProtectedRoute =
              list_ex (\<lambda>route. startsWith pathname route) protectedRoutes;
            isProtectedApiRoute =
              list_ex (\<lambda>route. startsWith pathname route) protectedApiRoutes
        in
        if isPublicRoute \<or> pathname = ''/api/auth/me''
        then Inr (Next None)
        else
          let token = cookies_get request ''auth-token'' in
          if \<not> truthy token \<and> (isProtectedRoute \<or> isProtectedApiRoute)
          then
            (if isProtectedApiRoute
             then Inr (Json (JObj [(''error'', JStr ''Authentication required'')]) 401 [])
             else
               Inr (Redirect
                      (searchParams_set (new_URL ''/auth/login'' request)
                         ''callbackUrl'' pathname) []))
          else if truthy token
          then
            (case verifyToken lib m now (the token) of
               Inl thrown \<Rightarrow> Inl thrown
             | Inr payload \<Rightarrow>
                 if payload = None \<and> (isProtectedRoute \<or> isProtectedApiRoute)
                 then
                   (if isProtectedApiRoute
                    then Inr (Json (JObj [(''error'', JStr ''Invalid or expired token'')]) 401 [])
                    else Inr (Redirect (new_URL ''/auth/login'' request) [''auth-token'']))
                 else if payload \<noteq> None \<and> isProtectedApiRoute
                 then
                   Inr (Next (Some
                     (AList.update ''x-user-name'' (name (the payload))
                       (AList.update ''x-user-email'' (email (the payload))
                         (AList.update ''x-user-id'' (userId (the payload))
                           (headers request))))))
                 else if payload \<noteq> None \<and>
                         (startsWith pathname ''/auth/login'' \<or> startsWith pathname ''/sign-up'')
                 then Inr (Redirect (new_URL ''/profile'' request) [])
                 else Inr (Next None))
          else Inr (Next None))"

text \<open>A request for a path on the development origin, with the given cookies.\<close>

definition request_for :: "string \<Rightarrow> (string \<times> string) list \<Rightarrow> NextRequest" where
  "request_for p cs =
     \<lparr>nextUrl = \<lparr>origin = ''http://localhost:3000'', pathname = p, searchParams = []\<rparr>,
      cookies = cs, headers = []\<rparr>"

section \<open>The registration endpoint (app/api/auth/register/route.ts)\<close>

subsection \<open>Regular expressions\<close>

text \<open>
  \<open>RegExp.prototype.test\<close> for a pattern without flags, anchored by \<open>^\<close> and \<open>$\<close> and
  built from character classes, sequence, alternative and repetition only: the whole
  string, read as code units, is in the pattern's language. The matcher takes the
  derivative of the pattern by each code unit.
\<close>

datatype regex =
    Never
  | Empty
  | Class "code_unit list"
  | Seq regex regex
  | Alt regex regex
  | Star regex

fun nullable :: "regex \<Rightarrow> bool" where
  "nullable Never = False"
| "nullable Empty = True"
| "nullable (Class cs) = False"
| "nullable (Seq r s) = (nullable r \<and> nullable s)"
| "nullable (Alt r s) = (nullable r \<or> nullable s)"
| "nullable (Star r) = True"

fun deriv :: "code_unit \<Rightarrow> regex \<Rightarrow> regex" where
  "deriv c Never = Never"
| "deriv c Empty = Never"
| "deriv c (Class cs) = (if c \<in> set cs then Empty else Never)"
| "deriv c (Seq r s) =
     (if nullable r then Alt (Seq (deriv c r) s) (deriv c s) else Seq (deriv c r) s)"
| "deriv c (Alt r s) = Alt (deriv c r) (deriv c s)"
| "deriv c (Star r) = Seq (deriv c r) (Star r)"

definition regex_test :: "regex \<Rightarrow> jstring \<Rightarrow> bool" where
  "regex_test r s = nullable (foldl (\<lambda>r c. deriv c r) r s)"

text \<open>\<open>r+\<close>, \<open>r?\<close> and the class \<open>\w\<close>.\<close>

definition Plus :: "regex \<Rightarrow> regex" where
  "Plus r = Seq r (Star r)"

definition Opt :: "regex \<Rightarrow> regex" where
  "Opt r = Alt r Empty"

definition word_char :: regex where
  "word_char =
     Class (js ''ABCDEFGHIJKLMNOPQRSTUVWXYZabcdefghijklmnopqrstuvwxyz0123456789_'')"

text \<open>\<open>/^\w+([.-]?\w+)*@\w+([.-]?\w+)*(\.\w{2,3})+$/\<close>\<close>

definition emailRegex :: regex where
  "emailRegex =
     Seq (Plus word_char)
    (Seq (Star (Seq (Opt (Class (js ''.-''))) (Plus word_char)))
    (Seq (Class (js ''@''))
    (Seq (Plus word_char)
    (Seq (Star (Seq (Opt (Class (js ''.-''))) (Plus word_char)))
         (Plus (Seq (Class (js ''.'')) (Seq word_char (Seq word_char (Opt word_char)))))))))"

text \<open>
  The code units a pattern can read, and a pattern that matches nothing: they show
  below that a string which matches \<open>emailRegex\<close> is made of ASCII code units.
\<close>

fun alphabet :: "regex \<Rightarrow> code_unit list" where
  "alphabet Never = []"
| "alphabet Empty = []"
| "alphabet (Class cs) = cs"
| "alphabet (Seq r s) = alphabet r @ alphabet s"
| "alphabet (Alt r s) = alphabet r @ alphabet s"
| "alphabet (Star r) = alphabet r"

fun void :: "regex \<Rightarrow> bool" where
  "void Never = True"
| "void Empty = False"
| "void (Class cs) = False"
| "void (Seq r s) = (void r \<or> void s)"
| "void (Alt r s) = (void r \<and> void s)"
| "void (Star r) = False"

subsection \<open>String helpers\<close>

text \<open>
  \<open>String.prototype.trim\<close> removes white space and line terminators from both ends:
  U+0009 to U+000D, U+0020, U+00A0, U+1680, U+2000 to U+200A, U+2028, U+2029, U+202F,
  U+205F, U+3000 and U+FEFF, each one code unit.
\<close>

definition is_space :: "code_unit \<Rightarrow> bool" where
  "is_space c =
     (c \<in> set [0x0009, 0x000A, 0x000B, 0x000C, 0x000D, 0x0020, 0x00A0, 0x1680,
               0x2000, 0x2001, 0x2002, 0x2003, 0x2004, 0x2005, 0x2006, 0x2007, 0x2008,
               0x2009, 0x200A, 0x2028, 0x2029, 0x202F, 0x205F, 0x3000, 0xFEFF])"

definition trim :: "jstring \<Rightarrow> jstring" where
  "trim s = rev (dropWhile is_space (rev (dropWhile is_space s)))"

text \<open>
  \<open>String.prototype.toLowerCase\<close> on a string of ASCII code units: A to Z become a to z.
  The handler applies it to the email only after the email has matched \<open>emailRegex\<close>,
  and such a string has ASCII code units only (lemma \<open>emailRegex_ascii\<close> below); what
  \<open>toLowerCase\<close> does to other code units is not modelled and never used.
\<close>

definition lower_unit :: "code_unit \<Rightarrow> code_unit" where
  "lower_unit c = (if 0x41 \<le> c \<and> c \<le> 0x5A then c + 0x20 else c)"

definition toLowerCase :: "jstring \<Rightarrow> jstring" where
  "toLowerCase s = map lower_unit s"

text \<open>\<open>String.prototype.includes\<close> with a string argument.\<close>

definition str_includes :: "string \<Rightarrow> string \<Rightarrow> bool" where
  "str_includes s sub = sublist sub s"

subsection \<open>Collaborators\<close>

text \<open>
  \<open>bcryptjs\<close> is not part of the repository. \<open>bcrypt_hash password saltRounds salt\<close> is
  the call \<open>bcrypt.hash(password, saltRounds)\<close>, with \<open>salt\<close> the salt the library draws
  at random during that call; \<open>bcrypt_compare\<close> is \<open>bcrypt.compare\<close>.
\<close>

record bcrypt_lib =
  bcrypt_hash :: "jstring \<Rightarrow> nat \<Rightarrow> string \<Rightarrow> js_error + string"
  bcrypt_compare :: "jstring \<Rightarrow> string \<Rightarrow> js_error + bool"

definition hashPassword :: "bcrypt_lib \<Rightarrow> string \<Rightarrow> jstring \<Rightarrow> js_error + string" where
  "hashPassword bc salt password =
     (let saltRounds = 12 in bcrypt_hash bc password saltRounds salt)"



text \<open>
  The object passed to \<open>new User(...)\<close>: its \<open>email\<close>, \<open>password\<close>, \<open>name\<close>,
  \<open>fitnessProfile\<close>, \<open>programs\<close> and \<open>isEmailVerified\<close>, in this order.
\<close>

datatype user_doc = User jstring string jstring json "json list" bool

text \<open>
  The saved document, with the fields the handler reads; \<open>doc_id\<close> is \<open>_id\<close> as a string.
\<close>

record saved_user =
  doc_id :: string
  email :: string
  name :: string
  fitnessProfile :: json
  isEmailVerified :: bool
  profileCompleteness :: nat
  createdAt :: string

text \<open>
  The database behind the handler: \<open>connectToDatabase()\<close>, \<open>User.findOne({ email })\<close> and
  \<open>new User(doc).save()\<close>, each of which may throw.
\<close>

record user_store =
  connectToDatabase :: "js_error + unit"
  findOne :: "jstring \<Rightarrow> js_error + saved_user option"
  save :: "user_doc \<Rightarrow> js_error + saved_user"

subsection \<open>The handler\<close>

definition falsy :: "'a list option \<Rightarrow> bool" where
  "falsy v = (\<not> truthy v)"

definition error_response :: "string \<Rightarrow> nat \<Rightarrow> NextResponse" where
  "error_response msg st = Json (JObj [(''error'', JStr msg)]) st []"

text \<open>\<open>new User({ email: ..., password: ..., name: ..., ... })\<close>\<close>

definition new_User :: "jstring \<Rightarrow> string \<Rightarrow> jstring \<Rightarrow> user_doc" where
  "new_User email_in hashedPassword name_in =
     User (trim (toLowerCase email_in))
          hashedPassword
          (trim name_in)
          (JObj [(''fitnessLevel'', JStr ''beginner''),
                 (''activityLevel'', JStr ''moderately_active''),
                 (''workoutFrequency'', JNum 3),
                 (''goals'', JArr []),
                 (''injuries'', JArr []),
                 (''allergies'', JArr []),
                 (''dietaryRestrictions'', JArr []),
                 (''preferredWorkoutTypes'', JArr [])])
          []
          False"

definition userData :: "saved_user \<Rightarrow> json" where
  "userData savedUser =
     JObj [(''id'', JStr (doc_id savedUser)),
           (''email'', JStr (saved_user.email savedUser)),
           (''name'', JStr (saved_user.name savedUser)),
           (''fitnessProfile'', fitnessProfile savedUser),
           (''isEmailVerified'', JBool (isEmailVerified savedUser)),
           (''profileCompleteness'', JNum (int (profileCompleteness savedUser))),
           (''createdAt'', JStr (createdAt savedUser))]"

text \<open>
  The body of the \<open>try\<close> block. The parsed body gives each of the four fields read from
  it as a JavaScript string, or nothing when the field is absent (a field of another
  JSON type is outside the model); \<open>salt\<close> is the salt drawn while the password is
  hashed.
\<close>

definition POST_try ::
  "jwt_lib \<Rightarrow> auth_module \<Rightarrow> nat \<Rightarrow> (string \<rightharpoonup> string) \<Rightarrow> bcrypt_lib \<Rightarrow> string \<Rightarrow>
   user_store \<Rightarrow> js_error + (string \<rightharpoonup> jstring) \<Rightarrow> js_error + NextResponse" where
  "POST_try lib m now env bc salt store request_json =
     (case connectToDatabase store of
        Inl thrown \<Rightarrow> Inl thrown
      | Inr _ \<Rightarrow>
     (case request_json of
        Inl thrown \<Rightarrow> Inl thrown
      | Inr body \<Rightarrow>
        let email = body ''email''; password = body ''password''; name = body ''name'';
            confirmPassword = body ''confirmPassword''
        in
        if falsy email \<or> falsy password \<or> falsy name
        then Inr (error_response ''Email, password, and name are required'' 400)
        else if \<not> regex_test emailRegex (the email)
        then Inr (error_response ''Please enter a valid email address'' 400)
        else if length (the password) < 6
        then Inr (error_response ''Password must be at least 6 characters long'' 400)
        else if truthy confirmPassword \<and> the password \<noteq> the confirmPassword
        then Inr (error_response ''Passwords do not match'' 400)
        else if length (trim (the name)) < 2
        then Inr (error_response ''Name must be at least 2 characters long'' 400)
        else if length (the name) > 50
        then Inr (error_response ''Name cannot be longer than 50 characters'' 400)
        else
          (case findOne store (toLowerCase (the email)) of
             Inl thrown \<Rightarrow> Inl thrown
           | Inr existingUser \<Rightarrow>
               if existingUser \<noteq> None
               then Inr (error_response ''An account with this email already exists'' 409)
               else
                 (case hashPassword bc salt (the password) of
                    Inl thrown \<Rightarrow> Inl thrown
                  | Inr hashedPassword \<Rightarrow>
                 (case save store (new_User (the email) hashedPassword (the name)) of
                    Inl thrown \<Rightarrow> Inl thrown
                  | Inr savedUser \<Rightarrow>
                      let token =
                            generateToken lib m now
                              \<lparr>userId = doc_id savedUser,
                               email = saved_user.email savedUser,
                               name = saved_user.name savedUser\<rparr>
                      in
                      Inr (Json
                             (JObj [(''success'', JBool True),
                                    (''message'', JStr ''Account created successfully''),
                                    (''user'', userData savedUser)])
                             201
                             [(''auth-token'', token,
                               \<lparr>httpOnly = True,
                                secure = (env ''NODE_ENV'' = Some ''production''),
                                sameSite = ''strict'',
                                maxAge = 7 * 24 * 60 * 60,
                                path = ''/''\<rparr>)]))))))"

text \<open>The handler: the \<open>try\<close> block, and the \<open>catch\<close> block on what it throws.\<close>

definition POST ::
  "jwt_lib \<Rightarrow> auth_module \<Rightarrow> nat \<Rightarrow> (string \<rightharpoonup> string) \<Rightarrow> bcrypt_lib \<Rightarrow> string \<Rightarrow>
   user_store \<Rightarrow> js_error + (string \<rightharpoonup> jstring) \<Rightarrow> NextResponse" where
  "POST lib m now env bc salt store request_json =
     (case POST_try lib m now env bc salt store request_json of
        Inr response \<Rightarrow> response
      | Inl error \<Rightarrow>
          if str_includes (message error) ''E11000''
          then error_response ''An account with this email already exists'' 409
          else if err_name error = ''ValidationError''
          then error_response ''Please check your input and try again'' 400
          else error_response ''An error occurred during registration. Please try again.'' 500)"

text \<open>Reading a response: its status, the cookies it sets, a field of a JSON object.\<close>

fun status_of :: "NextResponse \<Rightarrow> nat option" where
  "status_of (Json b st cs) = Some st"
| "status_of other = None"

fun cookies_set :: "NextResponse \<Rightarrow> (string \<times> string \<times> cookie_options) list" where
  "cookies_set (Json b st cs) = cs"
| "cookies_set other = []"

fun body_of :: "NextResponse \<Rightarrow> json option" where
  "body_of (Json b st cs) = Some b"
| "body_of other = None"

fun json_field :: "json \<Rightarrow> string \<Rightarrow> json option" where
  "json_field (JObj kvs) k = map_of kvs k"
| "json_field other k = None"

fun json_keys :: "json \<Rightarrow> string list" where
  "json_keys (JObj kvs) = map fst kvs"
| "json_keys other = []"

section \<open>Loading the auth module\<close>



section \<open>What the round trip needs of jsonwebtoken\<close>

text \<open>
  The behaviour of \<open>jwt.sign\<close> followed by \<open>jwt.verify\<close> that the token round trip rests
  on: a token signed at time \<open>issued\<close> with a non-empty secret and a lifetime of
  \<open>expiresIn\<close> seconds verifies under the same secret at every time before
  \<open>issued + expiresIn\<close>, and decodes to the signed payload with \<open>iat\<close> and \<open>exp\<close> added.
\<close>

definition jwt_contract :: "jwt_lib \<Rightarrow> bool" where
  "jwt_contract lib =
     (\<forall>payload secret expiresIn issued now.
        secret \<noteq> [] \<and> now < issued + expiresIn \<longrightarrow>
        jwt_verify lib (jwt_sign lib payload secret expiresIn issued) secret now =
          Inr \<lparr>userId = userId payload, email = claims.email payload,
               name = claims.name payload,
               iat = Some issued, exp = Some (issued + expiresIn)\<rparr>)"

subsection \<open>A reference codec\<close>

text \<open>
  A small implementation of the library's interface, which shows that the contract can
  be met and gives the theorems a concrete library to run on. A token is the secret and
  the three claims, each behind its length, and the two timestamps; numbers are written
  in unary (\<open>n\<close> times \<open>1\<close>, then \<open>0\<close>).
\<close>

definition enc_nat :: "nat \<Rightarrow> string" where
  "enc_nat n = replicate n CHR ''1'' @ ''0''"

definition enc_str :: "string \<Rightarrow> string" where
  "enc_str s = enc_nat (length s) @ s"

definition dec_nat :: "string \<Rightarrow> (nat \<times> string) option" where
  "dec_nat t =
     (case dropWhile (\<lambda>c. c = CHR ''1'') t of
        [] \<Rightarrow> None
      | c # rest \<Rightarrow>
          if c = CHR ''0'' then Some (length (takeWhile (\<lambda>c. c = CHR ''1'') t), rest)
          else None)"

definition dec_str :: "string \<Rightarrow> (string \<times> string) option" where
  "dec_str t =
     (case dec_nat t of
        None \<Rightarrow> None
      | Some (n, rest) \<Rightarrow>
          if n \<le> length rest then Some (take n rest, drop n rest) else None)"

definition ref_sign :: "claims \<Rightarrow> string \<Rightarrow> nat \<Rightarrow> nat \<Rightarrow> string" where
  "ref_sign payload secret expiresIn issued =
     enc_str secret @ enc_str (userId payload) @ enc_str (claims.email payload) @
     enc_str (claims.name payload) @ enc_nat issued @ enc_nat (issued + expiresIn)"

definition jwt_malformed :: js_error where
  "jwt_malformed = Error ''JsonWebTokenError'' ''jwt malformed''"

definition ref_verify :: "string \<Rightarrow> string \<Rightarrow> nat \<Rightarrow> js_error + JWTPayload" where
  "ref_verify token secret now =
     (case dec_str token of None \<Rightarrow> Inl jwt_malformed | Some (tag, t1) \<Rightarrow>
     (case dec_str t1 of None \<Rightarrow> Inl jwt_malformed | Some (uid, t2) \<Rightarrow>
     (case dec_str t2 of None \<Rightarrow> Inl jwt_malformed | Some (em, t3) \<Rightarrow>
     (case dec_str t3 of None \<Rightarrow> Inl jwt_malformed | Some (nm, t4) \<Rightarrow>
     (case dec_nat t4 of None \<Rightarrow> Inl jwt_malformed | Some (i, t5) \<Rightarrow>
     (case dec_nat t5 of None \<Rightarrow> Inl jwt_malformed | Some (e, t6) \<Rightarrow>
        if t6 \<noteq> [] then Inl jwt_malformed
        else if secret = [] \<or> tag \<noteq> secret
        then Inl (Error ''JsonWebTokenError'' ''invalid signature'')
        else if e \<le> now
        then Inl (Error ''TokenExpiredError'' ''jwt expired'')
        else Inr \<lparr>userId = uid, email = em, name = nm, iat = Some i, exp = Some e\<rparr>))))))"

definition ref_jwt :: jwt_lib where
  "ref_jwt = \<lparr>jwt_sign = ref_sign, jwt_verify = ref_verify\<rparr>"

section \<open>What the password round trip needs of bcryptjs\<close>


subsection \<open>A reference hasher\<close>

text \<open>
  A small implementation of the library's interface. Like bcrypt it reads a bounded
  prefix of the password only: bcrypt reads at most 72 bytes, which for an ASCII password
  are its first 72 code units, and the reference reads the first 72 code units. A hash
  is the marker \<open>$2a$\<close>, the cost, the salt behind its length, and the digest of the
  prefix; \<open>ref_compare\<close> returns false, and does not throw, on a string of another shape.
\<close>

definition ref_digest :: "jstring \<Rightarrow> string" where
  "ref_digest password =
     concat (map (\<lambda>u. [char_of (unat u div 256), char_of (unat u)]) (take 72 password))"

definition ref_hash :: "jstring \<Rightarrow> nat \<Rightarrow> string \<Rightarrow> js_error + string" where
  "ref_hash password rounds salt =
     Inr (''$2a$'' @ enc_nat rounds @ enc_str salt @ ref_digest password)"

definition ref_compare :: "jstring \<Rightarrow> string \<Rightarrow> js_error + bool" where
  "ref_compare password hashed =
     (if take 4 hashed \<noteq> ''$2a$'' then Inr False
      else
        (case dec_nat (drop 4 hashed) of
           None \<Rightarrow> Inr False
         | Some (rounds, t1) \<Rightarrow>
             (case dec_str t1 of
                None \<Rightarrow> Inr False
              | Some (salt, digest) \<Rightarrow> Inr (digest = ref_digest password))))"

definition ref_bcrypt :: bcrypt_lib where
  "ref_bcrypt = \<lparr>bcrypt_hash = ref_hash, bcrypt_compare = ref_compare\<rparr>"

section \<open>A sample registration\<close>

text \<open>
  The collaborators of one registration: a store that is reachable, holds no account and
  saves the new document as \<open>demo_user\<close>, and the request body of the scenario (email
  \<open>a@b.com\<close>, password \<open>Abcdef12\<close>).
\<close>

definition demo_user :: saved_user where
  "demo_user =
     \<lparr>doc_id = ''64f0c0ffee'', email = ''a@b.com'', name = ''Al'',
      fitnessProfile = JObj [(''fitnessLevel'', JStr ''beginner'')],
      isEmailVerified = False, profileCompleteness = 33,
      createdAt = ''2024-01-01T00:00:00.000Z''\<rparr>"

definition demo_store :: user_store where
  "demo_store =
     \<lparr>connectToDatabase = Inr (), findOne = (\<lambda>e. Inr None), save = (\<lambda>doc. Inr demo_user)\<rparr>"

definition demo_body :: "string \<rightharpoonup> jstring" where
  "demo_body =
     [''email'' \<mapsto> js ''a@b.com'', ''password'' \<mapsto> js ''Abcdef12'', ''name'' \<mapsto> js ''Al'']"

definition demo_module :: auth_module where
  "demo_module = \<lparr>JWT_SECRET = ''s3cret''\<rparr>"

section \<open>Properties of the request gate\<close>

text \<open>
  Every path that begins with a slash is classified public: \<open>publicRoutes\<close> holds \<open>/\<close>, and
  the test is \<open>pathname === route || pathname.startsWith(route)\<close>. The gate therefore
  forwards every such request before it reads the cookie.
\<close>

lemma public_root_matches:
  "startsWith p ''/'' \<Longrightarrow>
     list_ex (\<lambda>route. p = route \<or> startsWith p route) publicRoutes"
  by (simp add: publicRoutes_def)

lemma middleware_forwards_every_path:
  "startsWith (pathname (nextUrl request)) ''/'' \<Longrightarrow>
     middleware lib m now request = Inr (Next None)"
  by (simp add: middleware_def Let_def public_root_matches)

text \<open>
  A path that does not begin with a slash matches no entry of the route tables, so the
  gate forwards it too: as written, the gate forwards every request.
\<close>

lemma startsWith_slash: "startsWith p (CHR ''/'' # r) \<Longrightarrow> startsWith p ''/''"
  by (cases p) (simp_all add: startsWith_def)

lemma no_slash_not_protected:
  "\<not> startsWith p ''/'' \<Longrightarrow> \<not> list_ex (\<lambda>route. startsWith p route) protectedRoutes"
  by (auto simp add: protectedRoutes_def dest: startsWith_slash)

lemma no_slash_not_protected_api:
  "\<not> startsWith p ''/'' \<Longrightarrow> \<not> list_ex (\<lambda>route. startsWith p route) protectedApiRoutes"
  by (auto simp add: protectedApiRoutes_def dest: startsWith_slash)

lemma verifyToken_returns: "\<exists>payload. verifyToken lib m now token = Inr payload"
  by (cases "jwt_verify lib token (JWT_SECRET m) now") (simp_all add: verifyToken_def)

lemma middleware_always_forwards: "middleware lib m now request = Inr (Next None)"
proof (cases "startsWith (pathname (nextUrl request)) ''/''")
  case True
  then show ?thesis by (rule middleware_forwards_every_path)
next
  case False
  note unprotected = no_slash_not_protected [OF False] no_slash_not_protected_api [OF False]
  have login: "\<not> startsWith (pathname (nextUrl request)) ''/auth/login''"
    using False startsWith_slash by blast
  have signup: "\<not> startsWith (pathname (nextUrl request)) ''/sign-up''"
    using False startsWith_slash by blast
  obtain payload where
    "verifyToken lib m now (the (cookies_get request ''auth-token'')) = Inr payload"
    using verifyToken_returns by blast
  with unprotected login signup show ?thesis
    by (simp add: middleware_def Let_def)
qed

lemma request_for_path: "pathname (nextUrl (request_for p cs)) = p"
  by (simp add: request_for_def)

lemma ref_verify_garbage: "ref_verify ''garbage'' secret now = Inl jwt_malformed"
  by (simp add: ref_verify_def dec_str_def dec_nat_def)

text \<open>
  Claim C1. A request to a protected route without the \<open>auth-token\<close> cookie is to be
  rejected: 401 with \<open>{ error: 'Authentication required' }\<close> on a protected API prefix,
  a redirect to \<open>/auth/login\<close> with \<open>callbackUrl\<close> on a page route. The code does not do
  so: on \<open>/api/programs\<close> and on \<open>/profile\<close>, with no cookie, the gate forwards.
\<close>

theorem gate_forwards_without_cookie:
  "middleware lib m now (request_for ''/api/programs'' []) = Inr (Next None) \<and>
   middleware lib m now (request_for ''/profile'' []) = Inr (Next None)"
  by (simp add: middleware_forwards_every_path request_for_path startsWith_def)

text \<open>
  Claim C2. A request to a protected route whose token fails verification is to get 401
  with \<open>{ error: 'Invalid or expired token' }\<close> on a protected API prefix, and on a page
  route a redirect to \<open>/auth/login\<close> that deletes the cookie. The code does not do so:
  with a token that \<open>verifyToken\<close> rejects, the gate forwards both requests and deletes no
  cookie.
\<close>

theorem gate_forwards_invalid_token:
  "verifyToken ref_jwt demo_module now ''garbage'' = Inr None \<and>
   middleware ref_jwt demo_module now
     (request_for ''/api/programs'' [(''auth-token'', ''garbage'')]) = Inr (Next None) \<and>
   middleware ref_jwt demo_module now
     (request_for ''/profile'' [(''auth-token'', ''garbage'')]) = Inr (Next None)"
  by (simp add: middleware_forwards_every_path request_for_path startsWith_def
      verifyToken_def ref_jwt_def ref_verify_garbage)

text \<open>
  Claim C3. A request to \<open>/auth/login\<close> or to the registration page that carries a valid
  token is to be redirected to \<open>/profile\<close>. The code does not do so: both paths are in
  \<open>publicRoutes\<close>, so the gate forwards them whatever the cookie holds, and the redirect
  further down is never reached.
\<close>

theorem gate_forwards_auth_pages:
  "middleware lib m now (request_for ''/auth/login'' [(''auth-token'', token)]) =
     Inr (Next None) \<and>
   middleware lib m now (request_for ''/auth/register'' [(''auth-token'', token)]) =
     Inr (Next None)"
  by (simp add: middleware_forwards_every_path request_for_path startsWith_def)

text \<open>
  Claim C9. Every rejection of a page route is to be a redirect to
  \<open>/auth/login?callbackUrl=<path>\<close>, for a missing and for an invalid token alike. The
  code does not do so: on the page routes \<open>/profile\<close> and \<open>/generate-program\<close> the gate
  forwards whatever cookies the request carries, so no redirect is sent at all.
\<close>

theorem gate_forwards_page_routes:
  "middleware lib m now (request_for ''/profile'' cs) = Inr (Next None) \<and>
   middleware lib m now (request_for ''/generate-program'' cs) = Inr (Next None)"
  by (simp add: middleware_forwards_every_path request_for_path startsWith_def)

text \<open>
  Claim C10. A request whose path contains a dot, or starts with \<open>/_next\<close> or \<open>/static\<close>,
  is forwarded plainly, whatever cookies it carries and whatever the token library would
  say of them, also when the path has a protected prefix.
\<close>

theorem static_bypass_forwards:
  assumes "includes_char (pathname (nextUrl request)) CHR ''.'' \<or>
           startsWith (pathname (nextUrl request)) ''/_next'' \<or>
           startsWith (pathname (nextUrl request)) ''/static''"
  shows "middleware lib m now request = Inr (Next None)"
  using assms by (auto simp add: middleware_def Let_def)

theorem static_bypass_forwards_witness:
  "includes_char
     (pathname (nextUrl (request_for ''/api/programs/x.json'' [(''auth-token'', ''garbage'')])))
     CHR ''.'' \<and>
   list_ex (\<lambda>route. startsWith ''/api/programs/x.json'' route) protectedApiRoutes \<and>
   middleware ref_jwt demo_module 0
     (request_for ''/api/programs/x.json'' [(''auth-token'', ''garbage'')]) = Inr (Next None)"
proof -
  have dot: "includes_char
     (pathname (nextUrl (request_for ''/api/programs/x.json'' [(''auth-token'', ''garbage'')])))
     CHR ''.''"
    by (simp add: request_for_def includes_char_def)
  have api: "list_ex (\<lambda>route. startsWith ''/api/programs/x.json'' route) protectedApiRoutes"
    by (simp add: protectedApiRoutes_def startsWith_def)
  from dot have "middleware ref_jwt demo_module 0
     (request_for ''/api/programs/x.json'' [(''auth-token'', ''garbage'')]) = Inr (Next None)"
    by (intro static_bypass_forwards) simp
  with dot api show ?thesis by simp
qed

section \<open>Properties of the auth module\<close>

lemma load_auth_Inr:
  "load_auth env = Inr m \<Longrightarrow>
     \<exists>secret. env ''JWT_SECRET'' = Some secret \<and> secret \<noteq> [] \<and> m = \<lparr>JWT_SECRET = secret\<rparr>"
  by (cases "env ''JWT_SECRET''") (auto simp add: load_auth_def Let_def split: if_splits)

lemma load_auth_secret_nonempty: "load_auth env = Inr m \<Longrightarrow> JWT_SECRET m \<noteq> []"
  by (drule load_auth_Inr) auto

subsection \<open>The reference codec meets the contract\<close>

lemma dropWhile_ones:
  "dropWhile (\<lambda>c. c = CHR ''1'') (replicate n CHR ''1'' @ CHR ''0'' # rest) = CHR ''0'' # rest"
  by (induction n) simp_all

lemma takeWhile_ones:
  "takeWhile (\<lambda>c. c = CHR ''1'') (replicate n CHR ''1'' @ CHR ''0'' # rest) =
     replicate n CHR ''1''"
  by (induction n) simp_all

lemma dec_enc_nat: "dec_nat (enc_nat n @ rest) = Some (n, rest)"
  by (simp add: dec_nat_def enc_nat_def dropWhile_ones takeWhile_ones)

lemma dec_enc_nat_end: "dec_nat (enc_nat n) = Some (n, [])"
  using dec_enc_nat [of n "[]"] by simp

lemma dec_enc_str: "dec_str (enc_str s @ rest) = Some (s, rest)"
  by (simp add: dec_str_def enc_str_def dec_enc_nat)

lemma ref_jwt_contract: "jwt_contract ref_jwt"
  unfolding jwt_contract_def
proof (intro allI impI)
  fix payload :: claims and secret :: string and expiresIn issued now :: nat
  assume "secret \<noteq> [] \<and> now < issued + expiresIn"
  then show "jwt_verify ref_jwt (jwt_sign ref_jwt payload secret expiresIn issued) secret now =
          Inr \<lparr>userId = userId payload, email = claims.email payload,
               name = claims.name payload,
               iat = Some issued, exp = Some (issued + expiresIn)\<rparr>"
    by (simp add: ref_jwt_def ref_sign_def ref_verify_def dec_enc_str dec_enc_nat
        dec_enc_nat_end)
qed

lemma ref_verify_small:
  "ref_verify ''10k10u10e10n101110'' ''k'' 2 =
     Inr \<lparr>userId = ''u'', email = ''e'', name = ''n'', iat = Some 1, exp = Some 3\<rparr>"
  by (simp add: ref_verify_def dec_str_def dec_nat_def)

subsection \<open>The claims\<close>

text \<open>
  Claim C4. Round trip: with the module loaded (so that the secret is configured) and a
  token library that meets \<open>jwt_contract\<close>, a token that \<open>generateToken\<close> issues for the
  claims \<open>c\<close> at time \<open>issued\<close> is accepted by \<open>verifyToken\<close> at every time \<open>now\<close> from
  \<open>issued\<close> up to, but not including, seven days later, and the payload returned has the
  \<open>userId\<close>, \<open>email\<close> and \<open>name\<close> of \<open>c\<close>.
\<close>

theorem token_round_trip:
  assumes contract: "jwt_contract lib"
    and loaded: "load_auth env = Inr m"
    and fresh: "issued \<le> now" "now < issued + 7 * 24 * 60 * 60"
  shows "\<exists>decoded. verifyToken lib m now (generateToken lib m issued c) = Inr (Some decoded) \<and>
           userId decoded = userId c \<and> claims.email decoded = claims.email c \<and>
           claims.name decoded = claims.name c"
proof -
  have secret: "JWT_SECRET m \<noteq> []"
    using loaded by (rule load_auth_secret_nonempty)
  have expiry: "now < issued + expiresIn_7d"
    using fresh by (simp add: expiresIn_7d_def)
  from contract secret expiry
  have "jwt_verify lib (jwt_sign lib c (JWT_SECRET m) expiresIn_7d issued) (JWT_SECRET m) now =
          Inr \<lparr>userId = userId c, email = claims.email c, name = claims.name c,
               iat = Some issued, exp = Some (issued + expiresIn_7d)\<rparr>"
    unfolding jwt_contract_def by blast
  then show ?thesis
    by (simp add: verifyToken_def generateToken_def)
qed

theorem token_round_trip_witness:
  "jwt_contract ref_jwt \<and>
   load_auth [''JWT_SECRET'' \<mapsto> ''s3cret''] = Inr \<lparr>JWT_SECRET = ''s3cret''\<rparr> \<and>
   (1000::nat) \<le> 1000 \<and> (1000::nat) < 1000 + 7 * 24 * 60 * 60 \<and>
   (\<exists>decoded.
      verifyToken ref_jwt \<lparr>JWT_SECRET = ''s3cret''\<rparr> 1000
        (generateToken ref_jwt \<lparr>JWT_SECRET = ''s3cret''\<rparr> 1000
           \<lparr>userId = ''u1'', email = ''a@b.com'', name = ''Al''\<rparr>) = Inr (Some decoded) \<and>
      userId decoded = ''u1'' \<and> claims.email decoded = ''a@b.com'' \<and>
      claims.name decoded = ''Al'')"
proof -
  have loaded: "load_auth [''JWT_SECRET'' \<mapsto> ''s3cret''] = Inr \<lparr>JWT_SECRET = ''s3cret''\<rparr>"
    by (simp add: load_auth_def)
  have t1: "(1000::nat) \<le> 1000" by simp
  have t2: "(1000::nat) < 1000 + 7 * 24 * 60 * 60" by simp
  from token_round_trip [OF ref_jwt_contract loaded t1 t2,
      of "\<lparr>userId = ''u1'', email = ''a@b.com'', name = ''Al''\<rparr>"]
  have "\<exists>decoded.
      verifyToken ref_jwt \<lparr>JWT_SECRET = ''s3cret''\<rparr> 1000
        (generateToken ref_jwt \<lparr>JWT_SECRET = ''s3cret''\<rparr> 1000
           \<lparr>userId = ''u1'', email = ''a@b.com'', name = ''Al''\<rparr>) = Inr (Some decoded) \<and>
      userId decoded = ''u1'' \<and> claims.email decoded = ''a@b.com'' \<and>
      claims.name decoded = ''Al''"
    by simp
  with ref_jwt_contract loaded t1 t2 show ?thesis by blast
qed

text \<open>
  Claim C5. \<open>verifyToken\<close> never throws: for every token it returns a value; whenever
  \<open>jwt.verify\<close> throws (a malformed token, a signature that does not match the configured
  secret, an elapsed expiry) the value is \<open>null\<close>; and a payload is returned only when
  \<open>jwt.verify\<close> accepted the token under the configured secret at the current time, and
  it is the payload that \<open>jwt.verify\<close> decoded.
\<close>

theorem verifyToken_never_throws:
  "(\<exists>result. verifyToken lib m now token = Inr result) \<and>
   (\<forall>thrown. jwt_verify lib token (JWT_SECRET m) now = Inl thrown \<longrightarrow>
      verifyToken lib m now token = Inr None) \<and>
   (\<forall>decoded. verifyToken lib m now token = Inr (Some decoded) \<longrightarrow>
      jwt_verify lib token (JWT_SECRET m) now = Inr decoded)"
  by (cases "jwt_verify lib token (JWT_SECRET m) now") (simp_all add: verifyToken_def)

theorem verifyToken_never_throws_witness:
  "jwt_verify ref_jwt ''garbage'' (JWT_SECRET \<lparr>JWT_SECRET = ''k''\<rparr>) 2 = Inl jwt_malformed \<and>
   verifyToken ref_jwt \<lparr>JWT_SECRET = ''k''\<rparr> 2 ''garbage'' = Inr None \<and>
   verifyToken ref_jwt \<lparr>JWT_SECRET = ''k''\<rparr> 2 ''10k10u10e10n101110'' =
     Inr (Some \<lparr>userId = ''u'', email = ''e'', name = ''n'', iat = Some 1, exp = Some 3\<rparr>) \<and>
   jwt_verify ref_jwt ''10k10u10e10n101110'' (JWT_SECRET \<lparr>JWT_SECRET = ''k''\<rparr>) 2 =
     Inr \<lparr>userId = ''u'', email = ''e'', name = ''n'', iat = Some 1, exp = Some 3\<rparr>"
proof -
  have bad: "jwt_verify ref_jwt ''garbage'' (JWT_SECRET \<lparr>JWT_SECRET = ''k''\<rparr>) 2 =
      Inl jwt_malformed"
    by (simp add: ref_jwt_def ref_verify_garbage)
  have good: "verifyToken ref_jwt \<lparr>JWT_SECRET = ''k''\<rparr> 2 ''10k10u10e10n101110'' =
     Inr (Some \<lparr>userId = ''u'', email = ''e'', name = ''n'', iat = Some 1, exp = Some 3\<rparr>)"
    by (simp add: verifyToken_def ref_jwt_def ref_verify_small)
  from verifyToken_never_throws [of ref_jwt "\<lparr>JWT_SECRET = ''k''\<rparr>" 2 "''garbage''"] bad
  have "verifyToken ref_jwt \<lparr>JWT_SECRET = ''k''\<rparr> 2 ''garbage'' = Inr None"
    by blast
  moreover
  from verifyToken_never_throws
      [of ref_jwt "\<lparr>JWT_SECRET = ''k''\<rparr>" 2 "''10k10u10e10n101110''"] good
  have "jwt_verify ref_jwt ''10k10u10e10n101110'' (JWT_SECRET \<lparr>JWT_SECRET = ''k''\<rparr>) 2 =
     Inr \<lparr>userId = ''u'', email = ''e'', name = ''n'', iat = Some 1, exp = Some 3\<rparr>"
    by blast
  ultimately show ?thesis using bad good by blast
qed

subsection \<open>The reference hasher meets the contract\<close>





lemma ref_hashPassword: "hashPassword ref_bcrypt salt p = ref_hash p 12 salt"
  by (simp add: hashPassword_def ref_bcrypt_def)


subsection \<open>Passwords\<close>




subsection \<open>The missing secret\<close>





section \<open>Properties of the registration endpoint\<close>

subsection \<open>A string that matches the email pattern is ASCII\<close>

lemma void_not_nullable: "void r \<Longrightarrow> \<not> nullable r"
  by (induction r) auto

lemma void_deriv: "void r \<Longrightarrow> void (deriv c r)"
  by (induction r) (auto dest: void_not_nullable)

lemma deriv_outside_alphabet: "c \<notin> set (alphabet r) \<Longrightarrow> void (deriv c r)"
  by (induction r) auto

lemma alphabet_deriv: "set (alphabet (deriv c r)) \<subseteq> set (alphabet r)"
  by (induction r) auto

lemma void_never_matches: "void r \<Longrightarrow> \<not> nullable (foldl (\<lambda>r c. deriv c r) r s)"
  by (induction s arbitrary: r) (auto dest: void_not_nullable void_deriv)

lemma regex_test_alphabet: "regex_test r s \<Longrightarrow> set s \<subseteq> set (alphabet r)"
proof (induction s arbitrary: r)
  case Nil
  then show ?case by simp
next
  case (Cons c s)
  from Cons.prems have m: "regex_test (deriv c r) s"
    by (simp add: regex_test_def)
  have "c \<in> set (alphabet r)"
  proof (rule ccontr)
    assume "c \<notin> set (alphabet r)"
    then have "void (deriv c r)" by (rule deriv_outside_alphabet)
    then have "\<not> regex_test (deriv c r) s"
      unfolding regex_test_def by (rule void_never_matches)
    with m show False by simp
  qed
  moreover from Cons.IH [OF m] alphabet_deriv [of c r]
  have "set s \<subseteq> set (alphabet r)" by blast
  ultimately show ?case by simp
qed

lemma word_char_ascii: "list_all (\<lambda>c. c < 0x80) (alphabet word_char)"
  by (simp add: word_char_def js_def)

lemma emailRegex_alphabet_ascii: "list_all (\<lambda>c. c < 0x80) (alphabet emailRegex)"
  by (simp add: emailRegex_def Plus_def Opt_def word_char_ascii js_def)

lemma emailRegex_ascii: "regex_test emailRegex s \<Longrightarrow> \<forall>c \<in> set s. c < 0x80"
  using regex_test_alphabet [of emailRegex s] emailRegex_alphabet_ascii
  unfolding list_all_iff by blast

subsection \<open>The handler\<close>

lemma emailRegex_rejects_empty: "\<not> regex_test emailRegex []"
  by (simp add: regex_test_def emailRegex_def Plus_def Opt_def word_char_def)

lemma trim_Nil: "trim [] = []"
  by (simp add: trim_def)

lemma userData_keys:
  "json_keys (userData u) =
     [''id'', ''email'', ''name'', ''fitnessProfile'', ''isEmailVerified'',
      ''profileCompleteness'', ''createdAt'']"
  by (simp add: userData_def)

lemma demo_email: "regex_test emailRegex (js ''a@b.com'')"
  by (simp add: regex_test_def emailRegex_def Plus_def Opt_def word_char_def js_def)

lemma demo_name: "2 \<le> length (trim (js ''Al''))"
  by (simp add: trim_def is_space_def js_def)

text \<open>
  A name made of a letter between two no-break spaces has three code units and trims
  to one: the handler answers 400.
\<close>

lemma nbsp_name_rejected:
  "POST lib m now env bc salt demo_store (Inr (demo_body(''name'' \<mapsto> [0xA0, 0x41, 0xA0]))) =
     error_response ''Name must be at least 2 characters long'' 400"
  using demo_email
  by (simp add: POST_def POST_try_def demo_store_def demo_body_def Let_def falsy_def
      trim_def is_space_def) (simp add: js_def)

text \<open>The \<open>try\<close> block on the path where every check passes and every call returns.\<close>

lemma POST_try_success:
  assumes db: "connectToDatabase store = Inr ()"
    and parsed: "request_json = Inr body"
    and email_ok: "body ''email'' = Some email_in" "regex_test emailRegex email_in"
    and password_ok: "body ''password'' = Some password" "6 \<le> length password"
    and confirm_ok: "\<not> truthy (body ''confirmPassword'') \<or>
                     body ''confirmPassword'' = Some password"
    and name_ok: "body ''name'' = Some name_in" "2 \<le> length (trim name_in)"
      "length name_in \<le> 50"
    and unused: "findOne store (toLowerCase email_in) = Inr None"
    and hashed: "hashPassword bc salt password = Inr hashedPassword"
    and saved: "save store (new_User email_in hashedPassword name_in) = Inr savedUser"
  shows "POST_try lib m now env bc salt store request_json =
     Inr (Json
            (JObj [(''success'', JBool True),
                   (''message'', JStr ''Account created successfully''),
                   (''user'', userData savedUser)])
            201
            [(''auth-token'',
              generateToken lib m now
                \<lparr>userId = doc_id savedUser, email = saved_user.email savedUser,
                 name = saved_user.name savedUser\<rparr>,
              \<lparr>httpOnly = True, secure = (env ''NODE_ENV'' = Some ''production''),
               sameSite = ''strict'', maxAge = 604800, path = ''/''\<rparr>)])"
proof -
  have e: "email_in \<noteq> []"
    using email_ok(2) emailRegex_rejects_empty by auto
  have p: "password \<noteq> []"
    using password_ok(2) by auto
  have n: "name_in \<noteq> []"
    using name_ok(2) trim_Nil by auto
  from confirm_ok show ?thesis
  proof
    assume "\<not> truthy (body ''confirmPassword'')"
    with db parsed email_ok password_ok name_ok unused hashed saved e p n
    show ?thesis
      unfolding POST_try_def by (simp add: Let_def falsy_def)
  next
    assume "body ''confirmPassword'' = Some password"
    with db parsed email_ok password_ok name_ok unused hashed saved e p n
    show ?thesis
      unfolding POST_try_def by (simp add: Let_def falsy_def)
  qed
qed

text \<open>
  Claim C7. A registration that succeeds (the database is reachable, the body has an
  email that matches the pattern and is not yet registered, a password of at least six
  code units, a confirmation that is absent, empty or equal to it, a name of at most
  fifty code units that keeps at least two when trimmed, and hashing and saving return)
  is answered with status 201; the response sets the cookie \<open>auth-token\<close> to the issued
  token with \<open>httpOnly\<close>, \<open>sameSite\<close> strict, \<open>secure\<close> exactly in production, \<open>maxAge\<close>
  604800 seconds and path \<open>/\<close>; and the \<open>user\<close> object of the body has no \<open>password\<close>
  field.
\<close>

theorem register_success_response:
  assumes db: "connectToDatabase store = Inr ()"
    and parsed: "request_json = Inr body"
    and email_ok: "body ''email'' = Some email_in" "regex_test emailRegex email_in"
    and password_ok: "body ''password'' = Some password" "6 \<le> length password"
    and confirm_ok: "\<not> truthy (body ''confirmPassword'') \<or>
                     body ''confirmPassword'' = Some password"
    and name_ok: "body ''name'' = Some name_in" "2 \<le> length (trim name_in)"
      "length name_in \<le> 50"
    and unused: "findOne store (toLowerCase email_in) = Inr None"
    and hashed: "hashPassword bc salt password = Inr hashedPassword"
    and saved: "save store (new_User email_in hashedPassword name_in) = Inr savedUser"
  shows "status_of (POST lib m now env bc salt store request_json) = Some 201 \<and>
     cookies_set (POST lib m now env bc salt store request_json) =
       [(''auth-token'',
         generateToken lib m now
           \<lparr>userId = doc_id savedUser, email = saved_user.email savedUser,
            name = saved_user.name savedUser\<rparr>,
         \<lparr>httpOnly = True, secure = (env ''NODE_ENV'' = Some ''production''),
          sameSite = ''strict'', maxAge = 604800, path = ''/''\<rparr>)] \<and>
     (\<exists>b user. body_of (POST lib m now env bc salt store request_json) = Some b \<and>
        json_field b ''user'' = Some user \<and> ''password'' \<notin> set (json_keys user))"
proof -
  note r = POST_try_success [OF assms, of lib m now env]
  have "POST lib m now env bc salt store request_json =
     Json (JObj [(''success'', JBool True),
                 (''message'', JStr ''Account created successfully''),
                 (''user'', userData savedUser)])
          201
          [(''auth-token'',
            generateToken lib m now
              \<lparr>userId = doc_id savedUser, email = saved_user.email savedUser,
               name = saved_user.name savedUser\<rparr>,
            \<lparr>httpOnly = True, secure = (env ''NODE_ENV'' = Some ''production''),
             sameSite = ''strict'', maxAge = 604800, path = ''/''\<rparr>)]"
    by (simp add: POST_def r)
  then show ?thesis
    by (simp add: userData_keys)
qed

theorem register_success_response_witness:
  "connectToDatabase demo_store = Inr () \<and>
   demo_body ''email'' = Some (js ''a@b.com'') \<and> regex_test emailRegex (js ''a@b.com'') \<and>
   demo_body ''password'' = Some (js ''Abcdef12'') \<and> 6 \<le> length (js ''Abcdef12'') \<and>
   demo_body ''confirmPassword'' = None \<and>
   demo_body ''name'' = Some (js ''Al'') \<and> 2 \<le> length (trim (js ''Al'')) \<and>
   length (js ''Al'') \<le> 50 \<and>
   findOne demo_store (toLowerCase (js ''a@b.com'')) = Inr None \<and>
   hashPassword ref_bcrypt ''saltA'' (js ''Abcdef12'') = ref_hash (js ''Abcdef12'') 12 ''saltA'' \<and>
   status_of (POST ref_jwt demo_module 1000 [''NODE_ENV'' \<mapsto> ''production'']
                ref_bcrypt ''saltA'' demo_store (Inr demo_body)) = Some 201 \<and>
   cookies_set (POST ref_jwt demo_module 1000 [''NODE_ENV'' \<mapsto> ''production'']
                  ref_bcrypt ''saltA'' demo_store (Inr demo_body)) =
     [(''auth-token'',
       generateToken ref_jwt demo_module 1000
         \<lparr>userId = ''64f0c0ffee'', email = ''a@b.com'', name = ''Al''\<rparr>,
       \<lparr>httpOnly = True, secure = True, sameSite = ''strict'', maxAge = 604800,
        path = ''/''\<rparr>)] \<and>
   (\<exists>b user. body_of (POST ref_jwt demo_module 1000 [''NODE_ENV'' \<mapsto> ''production'']
                         ref_bcrypt ''saltA'' demo_store (Inr demo_body)) = Some b \<and>
      json_field b ''user'' = Some user \<and> ''password'' \<notin> set (json_keys user))"
proof -
  have db: "connectToDatabase demo_store = Inr ()"
    by (simp add: demo_store_def)
  have parsed: "(Inr demo_body :: js_error + (string \<rightharpoonup> jstring)) = Inr demo_body"
    by simp
  have e: "demo_body ''email'' = Some (js ''a@b.com'')"
    by (simp add: demo_body_def)
  have p: "demo_body ''password'' = Some (js ''Abcdef12'')"
    by (simp add: demo_body_def)
  have pl: "6 \<le> length (js ''Abcdef12'')"
    by (simp add: js_def)
  have c0: "demo_body ''confirmPassword'' = None"
    by (simp add: demo_body_def)
  then have c: "\<not> truthy (demo_body ''confirmPassword'') \<or>
      demo_body ''confirmPassword'' = Some (js ''Abcdef12'')"
    by simp
  have n: "demo_body ''name'' = Some (js ''Al'')"
    by (simp add: demo_body_def)
  have nl: "length (js ''Al'') \<le> 50"
    by (simp add: js_def)
  have f: "findOne demo_store (toLowerCase (js ''a@b.com'')) = Inr None"
    by (simp add: demo_store_def)
  have h0: "hashPassword ref_bcrypt ''saltA'' (js ''Abcdef12'') =
      ref_hash (js ''Abcdef12'') 12 ''saltA''"
    by (rule ref_hashPassword)
  obtain hashed where h: "hashPassword ref_bcrypt ''saltA'' (js ''Abcdef12'') = Inr hashed"
    by (simp add: h0 ref_hash_def)
  have s: "save demo_store (new_User (js ''a@b.com'') hashed (js ''Al'')) = Inr demo_user"
    by (simp add: demo_store_def)
  note r = register_success_response [OF db parsed e demo_email p pl c n demo_name nl f h s,
      of ref_jwt demo_module 1000 "[''NODE_ENV'' \<mapsto> ''production'']"]
  have u: "doc_id demo_user = ''64f0c0ffee''" "saved_user.email demo_user = ''a@b.com''"
      "saved_user.name demo_user = ''Al''"
    by (simp_all add: demo_user_def)
  from r have post: "status_of (POST ref_jwt demo_module 1000 [''NODE_ENV'' \<mapsto> ''production'']
                ref_bcrypt ''saltA'' demo_store (Inr demo_body)) = Some 201 \<and>
   cookies_set (POST ref_jwt demo_module 1000 [''NODE_ENV'' \<mapsto> ''production'']
                  ref_bcrypt ''saltA'' demo_store (Inr demo_body)) =
     [(''auth-token'',
       generateToken ref_jwt demo_module 1000
         \<lparr>userId = ''64f0c0ffee'', email = ''a@b.com'', name = ''Al''\<rparr>,
       \<lparr>httpOnly = True, secure = True, sameSite = ''strict'', maxAge = 604800,
        path = ''/''\<rparr>)] \<and>
   (\<exists>b user. body_of (POST ref_jwt demo_module 1000 [''NODE_ENV'' \<mapsto> ''production'']
                         ref_bcrypt ''saltA'' demo_store (Inr demo_body)) = Some b \<and>
      json_field b ''user'' = Some user \<and> ''password'' \<notin> set (json_keys user))"
    unfolding u by simp
  note post1 = post [THEN conjunct1]
    and post2 = post [THEN conjunct2, THEN conjunct1]
    and post3 = post [THEN conjunct2, THEN conjunct2]
  from db e demo_email p pl c0 n demo_name nl f h0 post1 post2 post3 show ?thesis
    by (intro conjI)
qed

end
